theory Spec2Isabelle
  imports Main "HOL-Library.Word"
begin

section \<open>Values shared by the two route handlers\<close>

text \<open>
  Both handlers (\<^verbatim>\<open>src/api/describe.ts\<close> and \<^verbatim>\<open>src/api/embed.ts\<close>) are
  \<^verbatim>\<open>async\<close> functions that end in \<^verbatim>\<open>new Response(JSON.stringify(v), {status, headers})\<close>.
  A thrown JavaScript value is modelled by the one thing the handlers read from it, its
  \<^verbatim>\<open>message\<close> property (\<open>None\<close> when the thrown value is \<^verbatim>\<open>null\<close>/\<^verbatim>\<open>undefined\<close>
  or carries no message).  A promise is modelled by the way it settles; \<open>await\<close> turns a
  rejection into a thrown error.
\<close>

datatype js_error = JsError (message: "string option")

datatype 'a promise = Resolves 'a | Rejects js_error

fun await :: "'a promise \<Rightarrow> js_error + 'a" where
  "await (Resolves v) = Inr v"
| "await (Rejects e) = Inl e"

text \<open>An element of a \<^verbatim>\<open>Float32Array\<close>, kept as its 32-bit pattern.\<close>

type_synonym float32 = "32 word"

text \<open>
  The text written by \<^verbatim>\<open>JSON.stringify\<close>, kept as a tree: the response body is its
  serialisation.  A property whose value is \<^verbatim>\<open>undefined\<close> is left out by
  \<^verbatim>\<open>JSON.stringify\<close>, so it does not occur in the \<open>JObject\<close> list.  \<open>JNumber x\<close> is
  the numeral written for the finite number \<open>x\<close>.
\<close>

datatype json =
    JNull
  | JString string
  | JNumber float32
  | JArray "json list"
  | JObject "(string \<times> json) list"

text \<open>
  \<^verbatim>\<open>JSON.stringify\<close> writes \<^verbatim>\<open>null\<close> for a number that is \<^verbatim>\<open>NaN\<close>, \<^verbatim>\<open>Infinity\<close> or
  \<^verbatim>\<open>-Infinity\<close>.  These are the patterns whose exponent field (bits 23 to 30) is all
  ones.
\<close>

definition finite32 :: "float32 \<Rightarrow> bool" where
  "finite32 x \<longleftrightarrow> (unat x div 8388608) mod 256 \<noteq> 255"

definition number_json :: "float32 \<Rightarrow> json" where
  "number_json x = (if finite32 x then JNumber x else JNull)"

record response =
  status :: nat
  headers :: "(string \<times> string) list"
  body :: json

definition json_response :: "nat \<Rightarrow> json \<Rightarrow> response" where
  "json_response code v =
     \<lparr>status = code, headers = [(''content-type'', ''application/json'')], body = v\<rparr>"

text \<open>
  JavaScript truthiness of a value of type \<^verbatim>\<open>string | undefined\<close>: the value is
  falsy when it is \<^verbatim>\<open>undefined\<close> or the empty string.  \<open>truthy_value\<close> keeps the
  string when it is truthy.
\<close>

fun truthy_value :: "string option \<Rightarrow> string option" where
  "truthy_value None = None"
| "truthy_value (Some s) = (if s = [] then None else Some s)"

definition truthy :: "string option \<Rightarrow> bool" where
  "truthy x = (truthy_value x \<noteq> None)"

section \<open>The caption handler, \<^verbatim>\<open>src/api/describe.ts\<close>\<close>

subsection \<open>Uploaded files and \<^verbatim>\<open>Buffer.toString('base64')\<close>\<close>

record js_file =
  bytes :: "8 word list"
  type :: string

text \<open>
  \<^verbatim>\<open>buffer.toString('base64')\<close> is Node's standard base64 (RFC 4648, section 4, with
  \<^verbatim>\<open>=\<close> padding): three bytes become four characters of the alphabet below.
\<close>

definition base64_alphabet :: string where
  "base64_alphabet = ''ABCDEFGHIJKLMNOPQRSTUVWXYZabcdefghijklmnopqrstuvwxyz0123456789+/''"

definition base64_char :: "nat \<Rightarrow> char" where
  "base64_char n = base64_alphabet ! (n mod 64)"

fun toString_base64 :: "8 word list \<Rightarrow> string" where
  "toString_base64 [] = []"
| "toString_base64 [a] =
     (let n = unat a * 65536
      in [base64_char (n div 262144), base64_char (n div 4096), CHR ''='', CHR ''=''])"
| "toString_base64 [a, b] =
     (let n = unat a * 65536 + unat b * 256
      in [base64_char (n div 262144), base64_char (n div 4096), base64_char (n div 64),
          CHR ''=''])"
| "toString_base64 (a # b # c # rest) =
     (let n = unat a * 65536 + unat b * 256 + unat c
      in [base64_char (n div 262144), base64_char (n div 4096), base64_char (n div 64),
          base64_char n] @ toString_base64 rest)"

record converted =
  base64 :: string
  mimeType :: string

text \<open>
  \<^verbatim>\<open>convertFileToBase64\<close> (lines 50-57): \<^verbatim>\<open>file.type || 'image/jpeg'\<close> takes the
  default exactly when the declared type is the empty string.
\<close>

definition convertFileToBase64 :: "js_file \<Rightarrow> converted" where
  "convertFileToBase64 f =
     \<lparr>base64 = toString_base64 (bytes f),
      mimeType = (if type f = [] then ''image/jpeg'' else type f)\<rparr>"

subsection \<open>The chat-completion API\<close>

record chat_request =
  model :: string
  prompt :: string
  url :: string

datatype chat_message = ChatMessage (content: "string option")

datatype choice = Choice (message_of: "chat_message option")

record chat_response =
  choices :: "choice list"

text \<open>
  What the handler's surroundings decide: the process environment variable and the
  answer of \<^verbatim>\<open>openai.chat.completions.create\<close> to a request.
\<close>

record describe_world =
  OPENAI_API_KEY :: "string option"
  chat_completions_create :: "chat_request \<Rightarrow> chat_response promise"

text \<open>\<^verbatim>\<open>getOpenAIClient\<close> (lines 7-15) throws when the key is unset or empty.\<close>

definition getOpenAIClient :: "describe_world \<Rightarrow> js_error + string" where
  "getOpenAIClient w =
     (case truthy_value (OPENAI_API_KEY w) of
        None \<Rightarrow> Inl (JsError (Some ''OPENAI_API_KEY environment variable is required''))
      | Some k \<Rightarrow> Inr k)"

text \<open>\<^verbatim>\<open>response.choices[0]?.message?.content\<close> (line 41).\<close>

definition first_content :: "chat_response \<Rightarrow> string option" where
  "first_content r =
     (case choices r of
        [] \<Rightarrow> None
      | c # _ \<Rightarrow> (case message_of c of None \<Rightarrow> None | Some m \<Rightarrow> content m))"

definition caption_request :: "string \<Rightarrow> string \<Rightarrow> chat_request" where
  "caption_request base64Image mime =
     \<lparr>model = ''gpt-5-nano'',
      prompt = ''You create descriptions of images. Provided with an image describe the image. You can describe unambiguously the image'',
      url = ''data:'' @ mime @ '';base64,'' @ base64Image\<rparr>"

text \<open>
  \<^verbatim>\<open>generateImageDescription\<close> (lines 17-48); \<^verbatim>\<open>!caption\<close> holds for a missing
  and for an empty content.  The second component lists the requests sent to the
  chat-completion API, in order.
\<close>

definition generateImageDescription ::
  "describe_world \<Rightarrow> string \<Rightarrow> string \<Rightarrow> (js_error + string) \<times> chat_request list" where
  "generateImageDescription w base64Image mime =
     (case getOpenAIClient w of
        Inl e \<Rightarrow> (Inl e, [])
      | Inr _ \<Rightarrow>
          (let rq = caption_request base64Image mime in
           case await (chat_completions_create w rq) of
             Inl e \<Rightarrow> (Inl e, [rq])
           | Inr r \<Rightarrow>
               (case truthy_value (first_content r) of
                  None \<Rightarrow> (Inl (JsError (Some ''Failed to generate caption'')), [rq])
                | Some caption \<Rightarrow> (Inr caption, [rq]))))"

subsection \<open>The handler\<close>

text \<open>
  A value of \<^verbatim>\<open>formData.get\<close> is a file or a string; \<^verbatim>\<open>get\<close> returns the first entry
  of that name or \<^verbatim>\<open>null\<close>.  \<^verbatim>\<open>request.formData()\<close> rejects when the body is not a form.
\<close>

datatype form_entry = EntryFile js_file | EntryString string

record describe_request =
  formData :: "(string \<times> form_entry) list promise"

definition formData_get :: "(string \<times> form_entry) list \<Rightarrow> string \<Rightarrow> form_entry option" where
  "formData_get form name = map_of form name"

text \<open>
  \<^verbatim>\<open>POST\<close> (lines 59-85).  \<^verbatim>\<open>!file\<close> holds for \<^verbatim>\<open>null\<close> and for the empty string; a
  non-empty string passes the test and then has no \<^verbatim>\<open>arrayBuffer\<close> method, which throws
  a \<^verbatim>\<open>TypeError\<close> inside the \<^verbatim>\<open>try\<close>.  The \<^verbatim>\<open>catch\<close> block answers every error alike.
\<close>

definition failed_to_process :: response where
  "failed_to_process = json_response 500 (JObject [(''error'', JString ''Failed to process image'')])"

definition describe_POST ::
  "describe_world \<Rightarrow> describe_request \<Rightarrow> response \<times> chat_request list" where
  "describe_POST w request =
     (case await (formData request) of
        Inl e \<Rightarrow> (failed_to_process, [])
      | Inr form \<Rightarrow>
          (case formData_get form ''image'' of
             None \<Rightarrow>
               (json_response 400 (JObject [(''error'', JString ''No image file provided'')]), [])
           | Some (EntryString s) \<Rightarrow>
               (if s = []
                then (json_response 400 (JObject [(''error'', JString ''No image file provided'')]), [])
                else (failed_to_process, []))
           | Some (EntryFile f) \<Rightarrow>
               (let c = convertFileToBase64 f in
                case generateImageDescription w (base64 c) (mimeType c) of
                  (Inl e, sent) \<Rightarrow> (failed_to_process, sent)
                | (Inr caption, sent) \<Rightarrow> (json_response 200 (JString caption), sent))))"

subsection \<open>An API double\<close>

text \<open>
  For the examples below: an environment with a key, whose API answers every request
  with the given response, and an upload of the three bytes \<^verbatim>\<open>Man\<close> that declares no
  type.
\<close>

definition answering_api :: "chat_response \<Rightarrow> describe_world" where
  "answering_api r =
     \<lparr>OPENAI_API_KEY = Some ''sk-test'', chat_completions_create = (\<lambda>rq. Resolves r)\<rparr>"

definition cat_upload :: describe_request where
  "cat_upload =
     \<lparr>formData = Resolves [(''image'', EntryFile \<lparr>bytes = [77, 97, 110], type = []\<rparr>)]\<rparr>"

section \<open>The embedding handler, \<^verbatim>\<open>src/api/embed.ts\<close>\<close>

subsection \<open>Module state\<close>

text \<open>
  The five module-scope variables (lines 9 and 28-31) hold \<^verbatim>\<open>null\<close> or a promise.  The
  state also keeps the list of load operations started so far (the dynamic \<^verbatim>\<open>import\<close> and
  the \<^verbatim>\<open>from_pretrained\<close> calls), in order; it is what a call counter on the loaders
  would observe.
\<close>

datatype loader =
    AutoProcessor
  | CLIPVisionModelWithProjection
  | AutoTokenizer
  | CLIPTextModelWithProjection

datatype load = Import string | FromPretrained loader string

record module_state =
  transformersPromise :: "unit promise option"
  processorPromise :: "unit promise option"
  visionModelPromise :: "unit promise option"
  tokenizerPromise :: "unit promise option"
  textModelPromise :: "unit promise option"
  loads :: "load list"

definition fresh_process :: module_state where
  "fresh_process =
     \<lparr>transformersPromise = None, processorPromise = None, visionModelPromise = None,
      tokenizerPromise = None, textModelPromise = None, loads = []\<rparr>"

subsection \<open>The library\<close>

text \<open>
  What \<^verbatim>\<open>@xenova/transformers\<close> and the network decide: how the import and each
  \<^verbatim>\<open>from_pretrained\<close> settle, and what the loaded tokenizer, text model, image reader,
  processor and vision model answer.  The types \<open>'tok\<close>, \<open>'img\<close> and \<open>'pix\<close> stand for the
  library's tokenizer output, decoded image and processor output.  \<open>call_textModel\<close> and
  \<open>call_visionModel\<close> give the \<^verbatim>\<open>Float32Array\<close> under \<^verbatim>\<open>text_embeds.data\<close> and
  \<^verbatim>\<open>image_embeds.data\<close>.  \<open>rejects_first w a b\<close> says that, when the loads of both \<open>a\<close> and
  \<open>b\<close> fail, the one of \<open>a\<close> fails first.
\<close>

record ('tok, 'img, 'pix) embed_world =
  import_transformers :: "unit promise"
  from_pretrained :: "loader \<Rightarrow> string \<Rightarrow> unit promise"
  call_tok :: "string list \<Rightarrow> js_error + 'tok"
  call_textModel :: "'tok \<Rightarrow> float32 list promise"
  RawImage_read :: "string \<Rightarrow> 'img promise"
  call_proc :: "'img option \<Rightarrow> 'pix promise"
  call_visionModel :: "'pix \<Rightarrow> float32 list promise"
  rejects_first :: "loader \<Rightarrow> loader \<Rightarrow> bool"

text \<open>
  \<^verbatim>\<open>await Promise.all([p, q])\<close>: it throws the rejection that happens first.
\<close>

fun Promise_all2 :: "bool \<Rightarrow> 'a promise \<Rightarrow> 'b promise \<Rightarrow> js_error + ('a \<times> 'b)" where
  "Promise_all2 q_first (Resolves a) (Resolves b) = Inr (a, b)"
| "Promise_all2 q_first (Rejects e) (Resolves b) = Inl e"
| "Promise_all2 q_first (Resolves a) (Rejects e) = Inl e"
| "Promise_all2 q_first (Rejects e1) (Rejects e2) = Inl (if q_first then e2 else e1)"

subsection \<open>Lazy loading\<close>

text \<open>\<^verbatim>\<open>getTransformers\<close> (lines 20-25).\<close>

definition getTransformers ::
  "('tok, 'img, 'pix) embed_world \<Rightarrow> module_state \<Rightarrow> unit promise \<times> module_state" where
  "getTransformers w s =
     (case transformersPromise s of
        None \<Rightarrow>
          (let p = import_transformers w
           in (p, s\<lparr>transformersPromise := Some p,
                    loads := loads s @ [Import ''@xenova/transformers'']\<rparr>))
      | Some p \<Rightarrow> (p, s))"

text \<open>The four guarded assignments of \<^verbatim>\<open>initializeModels\<close> (lines 36-47).\<close>

definition load_processor ::
  "('tok, 'img, 'pix) embed_world \<Rightarrow> module_state \<Rightarrow> unit promise \<times> module_state" where
  "load_processor w s =
     (case processorPromise s of
        None \<Rightarrow>
          (let p = from_pretrained w AutoProcessor ''Xenova/clip-vit-base-patch16''
           in (p, s\<lparr>processorPromise := Some p,
                    loads := loads s @ [FromPretrained AutoProcessor ''Xenova/clip-vit-base-patch16'']\<rparr>))
      | Some p \<Rightarrow> (p, s))"

definition load_visionModel ::
  "('tok, 'img, 'pix) embed_world \<Rightarrow> module_state \<Rightarrow> unit promise \<times> module_state" where
  "load_visionModel w s =
     (case visionModelPromise s of
        None \<Rightarrow>
          (let p = from_pretrained w CLIPVisionModelWithProjection ''Xenova/clip-vit-base-patch16''
           in (p, s\<lparr>visionModelPromise := Some p,
                    loads := loads s @
                      [FromPretrained CLIPVisionModelWithProjection ''Xenova/clip-vit-base-patch16'']\<rparr>))
      | Some p \<Rightarrow> (p, s))"

definition load_tokenizer ::
  "('tok, 'img, 'pix) embed_world \<Rightarrow> module_state \<Rightarrow> unit promise \<times> module_state" where
  "load_tokenizer w s =
     (case tokenizerPromise s of
        None \<Rightarrow>
          (let p = from_pretrained w AutoTokenizer ''Xenova/clip-vit-base-patch16''
           in (p, s\<lparr>tokenizerPromise := Some p,
                    loads := loads s @ [FromPretrained AutoTokenizer ''Xenova/clip-vit-base-patch16'']\<rparr>))
      | Some p \<Rightarrow> (p, s))"

definition load_textModel ::
  "('tok, 'img, 'pix) embed_world \<Rightarrow> module_state \<Rightarrow> unit promise \<times> module_state" where
  "load_textModel w s =
     (case textModelPromise s of
        None \<Rightarrow>
          (let p = from_pretrained w CLIPTextModelWithProjection ''Xenova/clip-vit-base-patch16''
           in (p, s\<lparr>textModelPromise := Some p,
                    loads := loads s @
                      [FromPretrained CLIPTextModelWithProjection ''Xenova/clip-vit-base-patch16'']\<rparr>))
      | Some p \<Rightarrow> (p, s))"

text \<open>The object returned by \<^verbatim>\<open>initializeModels\<close> (line 49).\<close>

record model_promises =
  processorP :: "unit promise"
  visionModelP :: "unit promise"
  tokenizerP :: "unit promise"
  textModelP :: "unit promise"

text \<open>
  \<^verbatim>\<open>initializeModels\<close> after its \<^verbatim>\<open>await getTransformers()\<close> has returned (lines 36-49):
  no \<^verbatim>\<open>await\<close> occurs in this part.
\<close>

definition start_loads ::
  "('tok, 'img, 'pix) embed_world \<Rightarrow> module_state \<Rightarrow> model_promises \<times> module_state" where
  "start_loads w s =
     (let (pp, s1) = load_processor w s;
          (vp, s2) = load_visionModel w s1;
          (tp, s3) = load_tokenizer w s2;
          (xp, s4) = load_textModel w s3
      in (\<lparr>processorP = pp, visionModelP = vp, tokenizerP = tp, textModelP = xp\<rparr>, s4))"

text \<open>\<^verbatim>\<open>initializeModels\<close> (lines 33-50), run without interruption.\<close>

definition initializeModels ::
  "('tok, 'img, 'pix) embed_world \<Rightarrow> module_state \<Rightarrow> (js_error + model_promises) \<times> module_state"
  where
  "initializeModels w s =
     (let (tp, s1) = getTransformers w s in
      case await tp of
        Inl e \<Rightarrow> (Inl e, s1)
      | Inr _ \<Rightarrow> (let (ps, s2) = start_loads w s1 in (Inr ps, s2)))"

subsection \<open>The handler\<close>

text \<open>
  The request body has the declared type \<^verbatim>\<open>Body\<close> (lines 52-56): each field is a string
  or absent.  \<^verbatim>\<open>req.json()\<close> rejects when the body is not JSON.
\<close>

record Body =
  text_field :: "string option"
  image_url :: "string option"
  image_base64 :: "string option"

record embed_request =
  json :: "Body promise"

text \<open>
  The \<^verbatim>\<open>catch\<close> block (lines 106-111): \<^verbatim>\<open>err?.message ?? 'Failed to produce CLIP embeddings'\<close>.
\<close>

definition embed_failure :: "js_error \<Rightarrow> response" where
  "embed_failure err =
     json_response 500
       (JObject [(''error'',
          JString (case message err of
                     None \<Rightarrow> ''Failed to produce CLIP embeddings''
                   | Some m \<Rightarrow> m))])"

text \<open>
  The end of the \<^verbatim>\<open>try\<close> block (lines 95-105), for the two fields of \<^verbatim>\<open>out\<close>.  An array
  is truthy even when empty, so \<^verbatim>\<open>!out.text_embedding\<close> holds only for a field never set.
  \<^verbatim>\<open>JSON.stringify(out)\<close> writes each array element by element.
\<close>

definition embedding_json :: "float32 list \<Rightarrow> json" where
  "embedding_json v = JArray (map number_json v)"

definition respond :: "float32 list option \<Rightarrow> float32 list option \<Rightarrow> response" where
  "respond text_embedding image_embedding =
     (if text_embedding = None \<and> image_embedding = None
      then json_response 400
             (JObject [(''error'', JString ''Provide text, image_url, or image_base64.'')])
      else json_response 200
             (JObject
                ((case text_embedding of
                    None \<Rightarrow> []
                  | Some v \<Rightarrow> [(''text_embedding'', embedding_json v)]) @
                 (case image_embedding of
                    None \<Rightarrow> []
                  | Some v \<Rightarrow> [(''image_embedding'', embedding_json v)]))))"

text \<open>
  The text branch (lines 68-73); the result is the value of \<^verbatim>\<open>out.text_embedding\<close>
  after it.  \<^verbatim>\<open>typeof text === 'string'\<close> also holds for the empty string.
\<close>

definition text_branch ::
  "('tok, 'img, 'pix) embed_world \<Rightarrow> model_promises \<Rightarrow> Body \<Rightarrow> js_error + float32 list option"
  where
  "text_branch w ps b =
     (case text_field b of
        None \<Rightarrow> Inr None
      | Some t \<Rightarrow>
          (case Promise_all2 (rejects_first w CLIPTextModelWithProjection AutoTokenizer)
                  (tokenizerP ps) (textModelP ps) of
             Inl e \<Rightarrow> Inl e
           | Inr _ \<Rightarrow>
               (case call_tok w [t] of
                  Inl e \<Rightarrow> Inl e
                | Inr inputs \<Rightarrow>
                    (case await (call_textModel w inputs) of
                       Inl e \<Rightarrow> Inl e
                     | Inr text_embeds \<Rightarrow> Inr (Some text_embeds)))))"

text \<open>
  Lines 80-88: the \<^verbatim>\<open>if\<close>/\<^verbatim>\<open>else if\<close> chain that sets \<^verbatim>\<open>image\<close>, which stays
  \<^verbatim>\<open>undefined\<close> when neither test holds.
\<close>

definition read_image ::
  "('tok, 'img, 'pix) embed_world \<Rightarrow> Body \<Rightarrow> js_error + 'img option" where
  "read_image w b =
     (case truthy_value (image_url b) of
        Some u \<Rightarrow>
          (case await (RawImage_read w u) of Inl e \<Rightarrow> Inl e | Inr img \<Rightarrow> Inr (Some img))
      | None \<Rightarrow>
          (case truthy_value (image_base64 b) of
             Some x \<Rightarrow>
               (case await (RawImage_read w (''data:image/jpeg;base64,'' @ x)) of
                  Inl e \<Rightarrow> Inl e
                | Inr img \<Rightarrow> Inr (Some img))
           | None \<Rightarrow> Inr None))"

text \<open>
  The image branch after \<^verbatim>\<open>await getTransformers()\<close> has returned (lines 78-92); it
  touches no module-scope variable.
\<close>

definition embed_image ::
  "('tok, 'img, 'pix) embed_world \<Rightarrow> model_promises \<Rightarrow> Body \<Rightarrow> js_error + float32 list" where
  "embed_image w ps b =
     (case Promise_all2 (rejects_first w CLIPVisionModelWithProjection AutoProcessor)
             (processorP ps) (visionModelP ps) of
        Inl e \<Rightarrow> Inl e
      | Inr _ \<Rightarrow>
          (case read_image w b of
             Inl e \<Rightarrow> Inl e
           | Inr img \<Rightarrow>
               (case await (call_proc w img) of
                  Inl e \<Rightarrow> Inl e
                | Inr image_inputs \<Rightarrow>
                    (case await (call_visionModel w image_inputs) of
                       Inl e \<Rightarrow> Inl e
                     | Inr image_embeds \<Rightarrow> Inr image_embeds))))"

text \<open>
  The image branch (lines 76-93); the result is the value of \<^verbatim>\<open>out.image_embedding\<close>
  after it.
\<close>

definition image_branch ::
  "('tok, 'img, 'pix) embed_world \<Rightarrow> model_promises \<Rightarrow> Body \<Rightarrow> module_state \<Rightarrow>
     (js_error + float32 list option) \<times> module_state" where
  "image_branch w ps b s =
     (if truthy (image_url b) \<or> truthy (image_base64 b)
      then (let (tp, s1) = getTransformers w s in
            case await tp of
              Inl e \<Rightarrow> (Inl e, s1)
            | Inr _ \<Rightarrow>
                (case embed_image w ps b of
                   Inl e \<Rightarrow> (Inl e, s1)
                 | Inr v \<Rightarrow> (Inr (Some v), s1)))
      else (Inr None, s))"

text \<open>\<^verbatim>\<open>POST\<close> (lines 58-112), run without interruption by another request.\<close>

definition embed_POST ::
  "('tok, 'img, 'pix) embed_world \<Rightarrow> embed_request \<Rightarrow> module_state \<Rightarrow> response \<times> module_state"
  where
  "embed_POST w req s =
     (case await (json req) of
        Inl err \<Rightarrow> (embed_failure err, s)
      | Inr b \<Rightarrow>
          (case initializeModels w s of
             (Inl err, s1) \<Rightarrow> (embed_failure err, s1)
           | (Inr ps, s1) \<Rightarrow>
               (case text_branch w ps b of
                  Inl err \<Rightarrow> (embed_failure err, s1)
                | Inr text_embedding \<Rightarrow>
                    (case image_branch w ps b s1 of
                       (Inl err, s2) \<Rightarrow> (embed_failure err, s2)
                     | (Inr image_embedding, s2) \<Rightarrow>
                         (respond text_embedding image_embedding, s2)))))"

subsection \<open>Requests in flight\<close>

text \<open>
  The runtime is single-threaded and cooperative: a handler runs until its next
  \<^verbatim>\<open>await\<close>, and only there can another request's handler run.  A task is a request
  suspended at an \<^verbatim>\<open>await\<close>, together with the local variables it needs afterwards:
  \<^item> \<open>AwaitJson\<close>: at \<^verbatim>\<open>await req.json()\<close> (line 60);
  \<^item> \<open>AwaitTransformers\<close>: inside \<^verbatim>\<open>initializeModels\<close>, at \<^verbatim>\<open>await getTransformers()\<close>
    (line 34), the guarded assignment of line 22 done;
  \<^item> \<open>AwaitInitializeModels\<close>: at \<^verbatim>\<open>await initializeModels()\<close> (line 65), the guarded
    assignments of lines 36-47 done and their promises returned;
  \<^item> \<open>AwaitTransformersAgain\<close>: in the image branch, at \<^verbatim>\<open>await getTransformers()\<close>
    (line 77);
  \<^item> \<open>Responded\<close>: the handler has returned.
  \<open>resume\<close> runs a task up to its next suspension.  The other \<^verbatim>\<open>await\<close>s of the handler
  (lines 69, 71, 78, 83, 87, 90, 91) separate code that reads and writes local variables
  only; that code is run together with the next segment that touches a module-scope
  variable, or with the response.
\<close>

datatype task =
    AwaitJson embed_request
  | AwaitTransformers Body "unit promise"
  | AwaitInitializeModels Body model_promises
  | AwaitTransformersAgain Body "float32 list option" model_promises "unit promise"
  | Responded response

fun resume ::
  "('tok, 'img, 'pix) embed_world \<Rightarrow> task \<Rightarrow> module_state \<Rightarrow> task \<times> module_state" where
  "resume w (AwaitJson req) s =
     (case await (json req) of
        Inl err \<Rightarrow> (Responded (embed_failure err), s)
      | Inr b \<Rightarrow> (let (tp, s1) = getTransformers w s in (AwaitTransformers b tp, s1)))"
| "resume w (AwaitTransformers b tp) s =
     (case await tp of
        Inl err \<Rightarrow> (Responded (embed_failure err), s)
      | Inr _ \<Rightarrow> (let (ps, s1) = start_loads w s in (AwaitInitializeModels b ps, s1)))"
| "resume w (AwaitInitializeModels b ps) s =
     (case text_branch w ps b of
        Inl err \<Rightarrow> (Responded (embed_failure err), s)
      | Inr text_embedding \<Rightarrow>
          (if truthy (image_url b) \<or> truthy (image_base64 b)
           then (let (tp, s1) = getTransformers w s
                 in (AwaitTransformersAgain b text_embedding ps tp, s1))
           else (Responded (respond text_embedding None), s)))"
| "resume w (AwaitTransformersAgain b text_embedding ps tp) s =
     (case await tp of
        Inl err \<Rightarrow> (Responded (embed_failure err), s)
      | Inr _ \<Rightarrow>
          (case embed_image w ps b of
             Inl err \<Rightarrow> (Responded (embed_failure err), s)
           | Inr v \<Rightarrow> (Responded (respond text_embedding (Some v)), s)))"
| "resume w (Responded r) s = (Responded r, s)"

text \<open>
  A process: the module state and the requests received so far.  An event is the arrival
  of a request or the resumption of the \<open>i\<close>-th request, with what the library answers
  to the calls made until that request suspends again.
\<close>

record process =
  mstate :: module_state
  tasks :: "task list"

datatype ('tok, 'img, 'pix) event =
    Arrive embed_request
  | Resume nat "('tok, 'img, 'pix) embed_world"

fun process_step :: "('tok, 'img, 'pix) event \<Rightarrow> process \<Rightarrow> process" where
  "process_step (Arrive req) pr = pr\<lparr>tasks := tasks pr @ [AwaitJson req]\<rparr>"
| "process_step (Resume i w) pr =
     (if i < length (tasks pr)
      then (let (t, s) = resume w (tasks pr ! i) (mstate pr)
            in \<lparr>mstate = s, tasks = (tasks pr)[i := t]\<rparr>)
      else pr)"

definition run_process :: "('tok, 'img, 'pix) event list \<Rightarrow> process" where
  "run_process evs = fold process_step evs \<lparr>mstate = fresh_process, tasks = []\<rparr>"

subsection \<open>Memoization\<close>

text \<open>
  \<open>memo_of s l\<close> is the module-scope variable that memoizes the promise of the load
  operation \<open>l\<close>: line 22 pairs the import with \<^verbatim>\<open>transformersPromise\<close>, lines 37, 40, 43
  and 46 pair each \<^verbatim>\<open>from_pretrained\<close> with its variable.  A state is consistent when
  no load was started twice and the loads started are those whose variable is set.  A
  later state keeps the memoized promises of an earlier one when every variable that was
  set still holds the same promise.
\<close>

fun memo_of :: "module_state \<Rightarrow> load \<Rightarrow> unit promise option" where
  "memo_of s (Import m) =
     (if m = ''@xenova/transformers'' then transformersPromise s else None)"
| "memo_of s (FromPretrained k m) =
     (if m = ''Xenova/clip-vit-base-patch16''
      then (case k of
              AutoProcessor \<Rightarrow> processorPromise s
            | CLIPVisionModelWithProjection \<Rightarrow> visionModelPromise s
            | AutoTokenizer \<Rightarrow> tokenizerPromise s
            | CLIPTextModelWithProjection \<Rightarrow> textModelPromise s)
      else None)"

definition memo_consistent :: "module_state \<Rightarrow> bool" where
  "memo_consistent s \<longleftrightarrow>
     distinct (loads s) \<and> (\<forall>l. l \<in> set (loads s) \<longleftrightarrow> memo_of s l \<noteq> None)"

definition memo_kept :: "module_state \<Rightarrow> module_state \<Rightarrow> bool" where
  "memo_kept s s' \<longleftrightarrow> (\<forall>l p. memo_of s l = Some p \<longrightarrow> memo_of s' l = Some p)"

subsection \<open>A library double\<close>

text \<open>
  Concrete libraries for the examples below: one whose import, loads and calls all
  succeed, one whose import fails, one whose vision model fails, one whose text model
  answers with the single element \<^verbatim>\<open>NaN\<close> (pattern \<^verbatim>\<open>0x7FC00000\<close>), one whose text model
  answers with an empty vector and whose vision model answers with \<^verbatim>\<open>NaN\<close>, and one that
  cannot fetch the URL \<^verbatim>\<open>https://example.com/cat.png\<close> but reads every other source;
  and the state of a process whose five loads have been started and have resolved.
\<close>

definition working_library :: "(nat list, string, string) embed_world" where
  "working_library =
     \<lparr>import_transformers = Resolves (),
      from_pretrained = (\<lambda>k m. Resolves ()),
      call_tok = (\<lambda>ts. Inr (map length ts)),
      call_textModel = (\<lambda>inputs. Resolves [1, 2]),
      RawImage_read = (\<lambda>u. Resolves u),
      call_proc = (\<lambda>img. Resolves (case img of None \<Rightarrow> [] | Some u \<Rightarrow> u)),
      call_visionModel = (\<lambda>pix. Resolves [3]),
      rejects_first = (\<lambda>a b. False)\<rparr>"

definition missing_library :: "(nat list, string, string) embed_world" where
  "missing_library =
     working_library\<lparr>import_transformers :=
       Rejects (JsError (Some ''Cannot find package @xenova/transformers''))\<rparr>"

definition failing_vision :: "(nat list, string, string) embed_world" where
  "failing_vision =
     working_library\<lparr>call_visionModel := (\<lambda>pix. Rejects (JsError (Some ''Unsupported image'')))\<rparr>"

definition nan_text_model :: "(nat list, string, string) embed_world" where
  "nan_text_model =
     working_library\<lparr>call_textModel := (\<lambda>inputs. Resolves [2143289344])\<rparr>"


definition unreachable_url :: "(nat list, string, string) embed_world" where
  "unreachable_url =
     working_library\<lparr>RawImage_read :=
       (\<lambda>src. if src = ''https://example.com/cat.png''
              then Rejects (JsError (Some ''fetch failed''))
              else Resolves src)\<rparr>"

definition loaded_promises :: model_promises where
  "loaded_promises =
     \<lparr>processorP = Resolves (), visionModelP = Resolves (),
      tokenizerP = Resolves (), textModelP = Resolves ()\<rparr>"

definition loaded_process :: module_state where
  "loaded_process =
     \<lparr>transformersPromise = Some (Resolves ()), processorPromise = Some (Resolves ()),
      visionModelPromise = Some (Resolves ()), tokenizerPromise = Some (Resolves ()),
      textModelPromise = Some (Resolves ()),
      loads = [Import ''@xenova/transformers'',
        FromPretrained AutoProcessor ''Xenova/clip-vit-base-patch16'',
        FromPretrained CLIPVisionModelWithProjection ''Xenova/clip-vit-base-patch16'',
        FromPretrained AutoTokenizer ''Xenova/clip-vit-base-patch16'',
        FromPretrained CLIPTextModelWithProjection ''Xenova/clip-vit-base-patch16'']\<rparr>"

text \<open>
  Two first requests in one process, interleaved: both arrive, both parse their body and
  reach the import, then both run the guarded assignments of \<^verbatim>\<open>initializeModels\<close>, then
  the first one is answered and the second one reaches its image branch.
\<close>

definition two_first_requests :: "(nat list, string, string) event list" where
  "two_first_requests =
     [Arrive \<lparr>json = Resolves \<lparr>text_field = Some ''a cat'', image_url = None,
                                 image_base64 = None\<rparr>\<rparr>,
      Arrive \<lparr>json = Resolves \<lparr>text_field = None, image_url = None,
                                 image_base64 = Some ''AAAA''\<rparr>\<rparr>,
      Resume 0 working_library,
      Resume 1 working_library,
      Resume 0 working_library,
      Resume 1 working_library,
      Resume 0 working_library,
      Resume 1 working_library]"

section \<open>Properties of the caption handler\<close>

lemma generateImageDescription_sent:
  "generateImageDescription w b m = (r, sent) \<Longrightarrow> rq \<in> set sent \<Longrightarrow>
     sent = [caption_request b m] \<and> rq = caption_request b m"
  by (auto simp: generateImageDescription_def Let_def split: sum.splits option.splits)

lemma generateImageDescription_caption:
  "generateImageDescription w b m = (Inr c, sent) \<Longrightarrow>
     c \<noteq> [] \<and>
     (\<exists>r. chat_completions_create w (caption_request b m) = Resolves r \<and>
          first_content r = Some c)"
  by (cases "chat_completions_create w (caption_request b m)")
    (auto simp: generateImageDescription_def Let_def
      split: sum.splits option.splits if_splits elim!: truthy_value.elims)

lemma describe_POST_status:
  "status (fst (describe_POST w request)) \<in> {200, 400, 500}"
  by (simp add: describe_POST_def json_response_def failed_to_process_def Let_def
      split: sum.split option.split form_entry.split prod.split)

lemma describe_POST_200_caption:
  assumes "describe_POST w request = (resp, sent)" and "status resp = 200"
  shows "\<exists>c. c \<noteq> [] \<and> body resp = JString c"
  using assms
  by (auto simp: describe_POST_def json_response_def failed_to_process_def Let_def
      split: sum.splits option.splits form_entry.splits if_splits prod.splits
      dest: generateImageDescription_caption)

text \<open>
  C2.  When the multipart form has no \<^verbatim>\<open>image\<close> field, the caption handler answers
  with status 400 and the body \<^verbatim>\<open>{"error": "No image file provided"}\<close>, and no request
  is sent to the chat-completion API.
\<close>

theorem describe_missing_image_400:
  assumes "formData request = Resolves form"
    and "formData_get form ''image'' = None"
  shows "describe_POST w request =
           (\<lparr>status = 400, headers = [(''content-type'', ''application/json'')],
             body = JObject [(''error'', JString ''No image file provided'')]\<rparr>, [])"
  using assms by (simp add: describe_POST_def json_response_def)

theorem describe_missing_image_400_witness:
  "formData \<lparr>formData = Resolves [(''note'', EntryString ''hello'')]\<rparr>
     = Resolves [(''note'', EntryString ''hello'')]
   \<and> formData_get [(''note'', EntryString ''hello'')] ''image'' = None
   \<and> describe_POST
         \<lparr>OPENAI_API_KEY = Some ''sk-test'',
          chat_completions_create =
            (\<lambda>rq. Resolves \<lparr>choices = [Choice (Some (ChatMessage (Some ''a cat'')))]\<rparr>)\<rparr>
         \<lparr>formData = Resolves [(''note'', EntryString ''hello'')]\<rparr>
       = (\<lparr>status = 400, headers = [(''content-type'', ''application/json'')],
           body = JObject [(''error'', JString ''No image file provided'')]\<rparr>, [])"
  using describe_missing_image_400
    [of "\<lparr>formData = Resolves [(''note'', EntryString ''hello'')]\<rparr>"
        "[(''note'', EntryString ''hello'')]"
        "\<lparr>OPENAI_API_KEY = Some ''sk-test'',
          chat_completions_create =
            (\<lambda>rq. Resolves \<lparr>choices = [Choice (Some (ChatMessage (Some ''a cat'')))]\<rparr>)\<rparr>"]
  by (simp add: formData_get_def)

text \<open>
  C3.  Whenever a request sent by the caption handler is answered by the chat-completion
  API with a response whose first choice has no message content (the choice, its message
  or the content is missing, or the content is the empty string), the handler answers
  with status 500 and the generic error body; in particular not with status 200.
\<close>

theorem describe_no_content_500:
  assumes "describe_POST w request = (resp, sent)"
    and "rq \<in> set sent"
    and "chat_completions_create w rq = Resolves r"
    and "first_content r = None \<or> first_content r = Some []"
  shows "status resp = 500
         \<and> body resp = JObject [(''error'', JString ''Failed to process image'')]
         \<and> status resp \<noteq> 200"
proof -
  from assms(1,2) obtain form f where
    form: "formData request = Resolves form"
    and f: "formData_get form ''image'' = Some (EntryFile f)"
    by (cases "formData request")
      (auto simp: describe_POST_def split: option.splits form_entry.splits if_splits)
  let ?c = "convertFileToBase64 f"
  obtain res sent' where
    g: "generateImageDescription w (base64 ?c) (mimeType ?c) = (res, sent')"
    by (cases "generateImageDescription w (base64 ?c) (mimeType ?c)")
  with assms(1) form f have sent: "sent' = sent"
    by (auto simp: describe_POST_def Let_def split: sum.splits)
  with g assms(2) have rq: "rq = caption_request (base64 ?c) (mimeType ?c)"
    using generateImageDescription_sent by blast
  have "\<exists>e. res = Inl e"
  proof (cases res)
    case (Inr c)
    with g rq assms(3) have "c \<noteq> []" and "first_content r = Some c"
      using generateImageDescription_caption [of w "base64 ?c" "mimeType ?c" c sent']
      by auto
    with assms(4) show ?thesis by simp
  qed simp
  with assms(1) form f g have "resp = failed_to_process"
    by (auto simp: describe_POST_def Let_def)
  then show ?thesis
    by (simp add: failed_to_process_def json_response_def)
qed

lemma toString_base64_examples:
  "toString_base64 [77, 97, 110] = ''TWFu''"
  "toString_base64 [77, 97] = ''TWE=''"
  "toString_base64 [77] = ''TQ==''"
  "toString_base64 [255, 254, 253, 0, 1] = ''//79AAE=''"
  by (simp_all add: base64_char_def base64_alphabet_def)

lemma describe_POST_cat_upload_empty_content:
  "describe_POST (answering_api \<lparr>choices = [Choice (Some (ChatMessage (Some [])))]\<rparr>) cat_upload
     = (failed_to_process, [caption_request ''TWFu'' ''image/jpeg''])"
  by (simp add: describe_POST_def cat_upload_def formData_get_def convertFileToBase64_def
      base64_char_def base64_alphabet_def generateImageDescription_def getOpenAIClient_def
      answering_api_def first_content_def Let_def)

theorem describe_no_content_500_witness:
  "chat_completions_create
         (answering_api \<lparr>choices = [Choice (Some (ChatMessage (Some [])))]\<rparr>)
         (caption_request ''TWFu'' ''image/jpeg'')
       = Resolves \<lparr>choices = [Choice (Some (ChatMessage (Some [])))]\<rparr>
   \<and> first_content \<lparr>choices = [Choice (Some (ChatMessage (Some [])))]\<rparr> = Some []
   \<and> status failed_to_process = 500
   \<and> body failed_to_process = JObject [(''error'', JString ''Failed to process image'')]"
proof -
  let ?r = "\<lparr>choices = [Choice (Some (ChatMessage (Some [])))]\<rparr>"
  have c: "chat_completions_create (answering_api ?r) (caption_request ''TWFu'' ''image/jpeg'')
             = Resolves ?r"
    by (simp add: answering_api_def)
  have f: "first_content ?r = None \<or> first_content ?r = Some []"
    by (simp add: first_content_def)
  have m: "caption_request ''TWFu'' ''image/jpeg'' \<in> set [caption_request ''TWFu'' ''image/jpeg'']"
    by simp
  from describe_no_content_500 [OF describe_POST_cat_upload_empty_content m c f] c
  show ?thesis by (simp add: first_content_def)
qed

lemma describe_POST_sent:
  assumes "formData request = Resolves form"
    and "formData_get form ''image'' = Some (EntryFile f)"
  shows "snd (describe_POST w request) =
           snd (generateImageDescription w (toString_base64 (bytes f))
                  (if type f = [] then ''image/jpeg'' else type f))"
  using assms
  by (simp add: describe_POST_def convertFileToBase64_def Let_def split: prod.split sum.split)

lemma getOpenAIClient_truthy:
  "truthy (OPENAI_API_KEY w) \<Longrightarrow> \<exists>k. getOpenAIClient w = Inr k"
  by (auto simp: getOpenAIClient_def truthy_def split: option.splits)

lemma generateImageDescription_sends:
  assumes "truthy (OPENAI_API_KEY w)"
  shows "snd (generateImageDescription w b m) = [caption_request b m]"
proof -
  from assms obtain k where "getOpenAIClient w = Inr k"
    using getOpenAIClient_truthy by blast
  then show ?thesis
    by (simp add: generateImageDescription_def Let_def split: sum.split option.split)
qed

lemma url_caption_request: "url (caption_request b m) = ''data:'' @ m @ '';base64,'' @ b"
  by (simp add: caption_request_def)

text \<open>
  C8.  For an uploaded file, \<^verbatim>\<open>convertFileToBase64\<close> returns the base64 encoding of the
  file's bytes together with the declared MIME type, and \<^verbatim>\<open>image/jpeg\<close> in its place
  exactly when the declared type is the empty string.  Every request the caption handler
  sends upstream for this file carries the data URL
  \<^verbatim>\<open>data:<mimeType>;base64,<payload>\<close> built from the two, and when the API key is set
  exactly one such request is sent.
\<close>

theorem convertFileToBase64_data_url:
  assumes "formData request = Resolves form"
    and "formData_get form ''image'' = Some (EntryFile f)"
  shows "convertFileToBase64 f =
           \<lparr>base64 = toString_base64 (bytes f),
            mimeType = (if type f = [] then ''image/jpeg'' else type f)\<rparr>
         \<and> (\<forall>rq \<in> set (snd (describe_POST w request)).
               url rq = ''data:'' @ (if type f = [] then ''image/jpeg'' else type f)
                          @ '';base64,'' @ toString_base64 (bytes f))
         \<and> (truthy (OPENAI_API_KEY w) \<longrightarrow>
               map url (snd (describe_POST w request)) =
                 [''data:'' @ (if type f = [] then ''image/jpeg'' else type f)
                    @ '';base64,'' @ toString_base64 (bytes f)])"
proof (intro conjI ballI impI)
  show "convertFileToBase64 f =
           \<lparr>base64 = toString_base64 (bytes f),
            mimeType = (if type f = [] then ''image/jpeg'' else type f)\<rparr>"
    by (simp add: convertFileToBase64_def)
next
  fix rq
  let ?b = "toString_base64 (bytes f)"
  let ?m = "if type f = [] then ''image/jpeg'' else type f"
  assume "rq \<in> set (snd (describe_POST w request))"
  then have "rq \<in> set (snd (generateImageDescription w ?b ?m))"
    by (simp only: describe_POST_sent [OF assms])
  then have "rq = caption_request ?b ?m"
    using generateImageDescription_sent
      [of w ?b ?m "fst (generateImageDescription w ?b ?m)"
          "snd (generateImageDescription w ?b ?m)" rq]
    by simp
  then show "url rq = ''data:'' @ ?m @ '';base64,'' @ ?b"
    by (simp only: url_caption_request)
next
  let ?b = "toString_base64 (bytes f)"
  let ?m = "if type f = [] then ''image/jpeg'' else type f"
  assume "truthy (OPENAI_API_KEY w)"
  then have "snd (describe_POST w request) = [caption_request ?b ?m]"
    by (simp only: describe_POST_sent [OF assms] generateImageDescription_sends)
  then show "map url (snd (describe_POST w request)) = [''data:'' @ ?m @ '';base64,'' @ ?b]"
    by (simp only: url_caption_request list.map)
qed

theorem convertFileToBase64_data_url_witness:
  "convertFileToBase64 \<lparr>bytes = [77, 97, 110], type = []\<rparr>
     = \<lparr>base64 = ''TWFu'', mimeType = ''image/jpeg''\<rparr>
   \<and> map url (snd (describe_POST
         (answering_api \<lparr>choices = [Choice (Some (ChatMessage (Some ''a cat'')))]\<rparr>) cat_upload))
     = [''data:image/jpeg;base64,TWFu'']"
proof -
  have t: "truthy (OPENAI_API_KEY
      (answering_api \<lparr>choices = [Choice (Some (ChatMessage (Some ''a cat'')))]\<rparr>))"
    by (simp add: answering_api_def truthy_def)
  have g: "formData_get [(''image'', EntryFile \<lparr>bytes = [77, 97, 110], type = []\<rparr>)] ''image''
      = Some (EntryFile \<lparr>bytes = [77, 97, 110], type = []\<rparr>)"
    by (simp add: formData_get_def)
  have r: "formData cat_upload
      = Resolves [(''image'', EntryFile \<lparr>bytes = [77, 97, 110], type = []\<rparr>)]"
    by (simp add: cat_upload_def)
  from convertFileToBase64_data_url [OF r g,
      of "answering_api \<lparr>choices = [Choice (Some (ChatMessage (Some ''a cat'')))]\<rparr>"] t
  show ?thesis by (simp add: base64_char_def base64_alphabet_def)
qed

section \<open>Properties of the embedding handler\<close>

subsection \<open>The handler as a sequence of segments\<close>

text \<open>
  Handling one request without interruption is resuming its task four times.
\<close>

lemma embed_POST_as_resumes:
  "((\<lambda>(t, s). resume w t s) ^^ 4) (AwaitJson req, s) =
     (Responded (fst (embed_POST w req s)), snd (embed_POST w req s))"
  by (simp add: eval_nat_numeral embed_POST_def initializeModels_def image_branch_def Let_def
      split: sum.split prod.split)

subsection \<open>Memoized loads\<close>

lemma memo_of_fresh [simp]: "memo_of fresh_process l = None"
  by (cases l) (simp_all add: fresh_process_def split: loader.splits)

lemma memo_of_loads [simp]: "memo_of (s\<lparr>loads := x\<rparr>) l = memo_of s l"
  by (cases l) (simp_all split: loader.splits)

lemma memo_of_transformers [simp]:
  "memo_of (s\<lparr>transformersPromise := Some p\<rparr>) l =
     (if l = Import ''@xenova/transformers'' then Some p else memo_of s l)"
  by (cases l) (simp_all split: loader.splits)

lemma memo_of_processor [simp]:
  "memo_of (s\<lparr>processorPromise := Some p\<rparr>) l =
     (if l = FromPretrained AutoProcessor ''Xenova/clip-vit-base-patch16'' then Some p
      else memo_of s l)"
  by (cases l) (simp_all split: loader.splits)

lemma memo_of_visionModel [simp]:
  "memo_of (s\<lparr>visionModelPromise := Some p\<rparr>) l =
     (if l = FromPretrained CLIPVisionModelWithProjection ''Xenova/clip-vit-base-patch16''
      then Some p else memo_of s l)"
  by (cases l) (simp_all split: loader.splits)

lemma memo_of_tokenizer [simp]:
  "memo_of (s\<lparr>tokenizerPromise := Some p\<rparr>) l =
     (if l = FromPretrained AutoTokenizer ''Xenova/clip-vit-base-patch16'' then Some p
      else memo_of s l)"
  by (cases l) (simp_all split: loader.splits)

lemma memo_of_textModel [simp]:
  "memo_of (s\<lparr>textModelPromise := Some p\<rparr>) l =
     (if l = FromPretrained CLIPTextModelWithProjection ''Xenova/clip-vit-base-patch16''
      then Some p else memo_of s l)"
  by (cases l) (simp_all split: loader.splits)

lemma memo_consistent_fresh: "memo_consistent fresh_process"
  by (simp add: memo_consistent_def) (simp add: fresh_process_def)

lemma memo_consistent_start:
  assumes "memo_consistent s" and "memo_of s l = None"
    and "\<And>l'. memo_of s' l' = (if l' = l then Some p else memo_of s l')"
    and "loads s' = loads s @ [l]"
  shows "memo_consistent s'"
  using assms unfolding memo_consistent_def by auto

lemma getTransformers_consistent:
  "memo_consistent s \<Longrightarrow> memo_consistent (snd (getTransformers w s))"
proof (cases "transformersPromise s")
  case None
  assume "memo_consistent s"
  then show ?thesis
    by (rule memo_consistent_start [where l = "Import ''@xenova/transformers''"])
       (simp_all add: getTransformers_def None Let_def)
next
  case (Some p)
  assume "memo_consistent s"
  then show ?thesis by (simp add: getTransformers_def Some)
qed


lemma load_processor_consistent:
  "memo_consistent s \<Longrightarrow> memo_consistent (snd (load_processor w s))"
proof (cases "processorPromise s")
  case None
  assume "memo_consistent s"
  then show ?thesis
    by (rule memo_consistent_start
          [where l = "FromPretrained AutoProcessor ''Xenova/clip-vit-base-patch16''"])
       (simp_all add: load_processor_def None Let_def)
next
  case (Some p)
  assume "memo_consistent s"
  then show ?thesis by (simp add: load_processor_def Some)
qed

lemma load_visionModel_consistent:
  "memo_consistent s \<Longrightarrow> memo_consistent (snd (load_visionModel w s))"
proof (cases "visionModelPromise s")
  case None
  assume "memo_consistent s"
  then show ?thesis
    by (rule memo_consistent_start
          [where l = "FromPretrained CLIPVisionModelWithProjection ''Xenova/clip-vit-base-patch16''"])
       (simp_all add: load_visionModel_def None Let_def)
next
  case (Some p)
  assume "memo_consistent s"
  then show ?thesis by (simp add: load_visionModel_def Some)
qed

lemma load_tokenizer_consistent:
  "memo_consistent s \<Longrightarrow> memo_consistent (snd (load_tokenizer w s))"
proof (cases "tokenizerPromise s")
  case None
  assume "memo_consistent s"
  then show ?thesis
    by (rule memo_consistent_start
          [where l = "FromPretrained AutoTokenizer ''Xenova/clip-vit-base-patch16''"])
       (simp_all add: load_tokenizer_def None Let_def)
next
  case (Some p)
  assume "memo_consistent s"
  then show ?thesis by (simp add: load_tokenizer_def Some)
qed

lemma load_textModel_consistent:
  "memo_consistent s \<Longrightarrow> memo_consistent (snd (load_textModel w s))"
proof (cases "textModelPromise s")
  case None
  assume "memo_consistent s"
  then show ?thesis
    by (rule memo_consistent_start
          [where l = "FromPretrained CLIPTextModelWithProjection ''Xenova/clip-vit-base-patch16''"])
       (simp_all add: load_textModel_def None Let_def)
next
  case (Some p)
  assume "memo_consistent s"
  then show ?thesis by (simp add: load_textModel_def Some)
qed

lemma snd_start_loads:
  "snd (start_loads w s) =
     snd (load_textModel w (snd (load_tokenizer w (snd (load_visionModel w
       (snd (load_processor w s)))))))"
  by (simp add: start_loads_def Let_def split: prod.split)

lemma start_loads_consistent:
  "memo_consistent s \<Longrightarrow> memo_consistent (snd (start_loads w s))"
  by (simp add: snd_start_loads load_processor_consistent load_visionModel_consistent
      load_tokenizer_consistent load_textModel_consistent)

lemma memo_kept_refl: "memo_kept s s"
  by (simp add: memo_kept_def)

lemma memo_kept_trans: "memo_kept s s1 \<Longrightarrow> memo_kept s1 s2 \<Longrightarrow> memo_kept s s2"
  by (simp add: memo_kept_def)

lemma memo_kept_start:
  assumes "memo_of s l = None"
    and "\<And>l'. memo_of s' l' = (if l' = l then Some p else memo_of s l')"
  shows "memo_kept s s'"
  unfolding memo_kept_def
proof (intro allI impI)
  fix l' q
  assume "memo_of s l' = Some q"
  with assms(1) have "l' \<noteq> l" by auto
  with assms(2) [of l'] \<open>memo_of s l' = Some q\<close> show "memo_of s' l' = Some q" by simp
qed

lemma getTransformers_kept: "memo_kept s (snd (getTransformers w s))"
proof (cases "transformersPromise s")
  case None
  show ?thesis
    by (rule memo_kept_start [where l = "Import ''@xenova/transformers''"])
       (simp_all add: getTransformers_def None Let_def)
next
  case (Some p)
  then show ?thesis by (simp add: getTransformers_def memo_kept_refl)
qed

lemma load_processor_kept: "memo_kept s (snd (load_processor w s))"
proof (cases "processorPromise s")
  case None
  show ?thesis
    by (rule memo_kept_start
          [where l = "FromPretrained AutoProcessor ''Xenova/clip-vit-base-patch16''"])
       (simp_all add: load_processor_def None Let_def)
next
  case (Some p)
  then show ?thesis by (simp add: load_processor_def memo_kept_refl)
qed

lemma load_visionModel_kept: "memo_kept s (snd (load_visionModel w s))"
proof (cases "visionModelPromise s")
  case None
  show ?thesis
    by (rule memo_kept_start
          [where l = "FromPretrained CLIPVisionModelWithProjection ''Xenova/clip-vit-base-patch16''"])
       (simp_all add: load_visionModel_def None Let_def)
next
  case (Some p)
  then show ?thesis by (simp add: load_visionModel_def memo_kept_refl)
qed

lemma load_tokenizer_kept: "memo_kept s (snd (load_tokenizer w s))"
proof (cases "tokenizerPromise s")
  case None
  show ?thesis
    by (rule memo_kept_start
          [where l = "FromPretrained AutoTokenizer ''Xenova/clip-vit-base-patch16''"])
       (simp_all add: load_tokenizer_def None Let_def)
next
  case (Some p)
  then show ?thesis by (simp add: load_tokenizer_def memo_kept_refl)
qed

lemma load_textModel_kept: "memo_kept s (snd (load_textModel w s))"
proof (cases "textModelPromise s")
  case None
  show ?thesis
    by (rule memo_kept_start
          [where l = "FromPretrained CLIPTextModelWithProjection ''Xenova/clip-vit-base-patch16''"])
       (simp_all add: load_textModel_def None Let_def)
next
  case (Some p)
  then show ?thesis by (simp add: load_textModel_def memo_kept_refl)
qed

lemma start_loads_kept: "memo_kept s (snd (start_loads w s))"
  unfolding snd_start_loads
  by (rule memo_kept_trans [OF memo_kept_trans [OF memo_kept_trans
        [OF load_processor_kept load_visionModel_kept] load_tokenizer_kept]
        load_textModel_kept])

lemma resume_consistent:
  "memo_consistent s \<Longrightarrow> memo_consistent (snd (resume w t s))"
proof (cases t)
  case (AwaitJson req)
  assume "memo_consistent s"
  then show ?thesis
    using getTransformers_consistent [of s w]
    by (simp add: AwaitJson split_beta split: sum.split)
next
  case (AwaitTransformers b tp)
  assume "memo_consistent s"
  then show ?thesis
    using start_loads_consistent [of s w]
    by (simp add: AwaitTransformers split_beta split: sum.split)
next
  case (AwaitInitializeModels b ps)
  assume "memo_consistent s"
  then show ?thesis
    using getTransformers_consistent [of s w]
    by (simp add: AwaitInitializeModels split_beta split: sum.split)
qed (simp_all split: sum.split)

lemma resume_kept: "memo_kept s (snd (resume w t s))"
proof (cases t)
  case (AwaitJson req)
  then show ?thesis
    using getTransformers_kept [of s w]
    by (simp add: memo_kept_refl split_beta split: sum.split)
next
  case (AwaitTransformers b tp)
  then show ?thesis
    using start_loads_kept [of s w]
    by (simp add: memo_kept_refl split_beta split: sum.split)
next
  case (AwaitInitializeModels b ps)
  then show ?thesis
    using getTransformers_kept [of s w]
    by (simp add: memo_kept_refl split_beta split: sum.split)
qed (simp_all add: memo_kept_refl split: sum.split)

lemma mstate_process_step:
  "mstate (process_step e pr) =
     (case e of
        Arrive req \<Rightarrow> mstate pr
      | Resume i w \<Rightarrow>
          if i < length (tasks pr) then snd (resume w (tasks pr ! i) (mstate pr))
          else mstate pr)"
  by (cases e) (simp_all add: split_beta)

lemma process_step_consistent:
  "memo_consistent (mstate pr) \<Longrightarrow> memo_consistent (mstate (process_step e pr))"
  by (simp add: mstate_process_step resume_consistent split: event.split)

lemma process_step_kept: "memo_kept (mstate pr) (mstate (process_step e pr))"
  by (simp add: mstate_process_step resume_kept memo_kept_refl split: event.split)

lemma fold_process_step_consistent:
  "memo_consistent (mstate pr) \<Longrightarrow> memo_consistent (mstate (fold process_step evs pr))"
  by (induction evs arbitrary: pr) (simp_all add: process_step_consistent)

lemma fold_process_step_kept: "memo_kept (mstate pr) (mstate (fold process_step evs pr))"
proof (induction evs arbitrary: pr)
  case Nil
  show ?case by (simp add: memo_kept_refl)
next
  case (Cons e evs)
  show ?case
    using memo_kept_trans [OF process_step_kept Cons.IH] by simp
qed

lemma resumes_consistent:
  "memo_consistent (snd ts) \<Longrightarrow>
     memo_consistent (snd (((\<lambda>(t, s). resume w t s) ^^ n) ts))"
  by (induction n) (simp_all add: split_beta resume_consistent)

lemma embed_POST_consistent:
  assumes "memo_consistent s"
  shows "memo_consistent (snd (embed_POST w req s))"
  using resumes_consistent [where ts = "(AwaitJson req, s)" and w = w and n = 4] assms
  by (simp only: embed_POST_as_resumes snd_conv)

lemma sequential_consistent:
  "memo_consistent s \<Longrightarrow>
     memo_consistent (fold (\<lambda>(w, req) s. snd (embed_POST w req s)) reqs s)"
proof (induction reqs arbitrary: s)
  case Nil
  then show ?case by simp
next
  case (Cons a reqs)
  obtain w req where a: "a = (w, req)" by (cases a)
  from Cons.prems have "memo_consistent (snd (embed_POST w req s))"
    by (rule embed_POST_consistent)
  then show ?case
    using Cons.IH by (simp add: a)
qed

text \<open>
  C7.  In every run of a process (requests arriving at any time, their handlers resumed
  in any order, one segment between two \<^verbatim>\<open>await\<close>s at a time), no load operation is
  started twice: the import and each of the four \<^verbatim>\<open>from_pretrained\<close> calls occur at most
  once among the loads started.  A load has been started exactly when its variable is
  set, and a promise once memoized is the one every later state of the process holds.
  The same holds when the requests are handled one after the other.
\<close>

theorem loads_started_once:
  "distinct (loads (mstate (run_process evs)))
   \<and> (\<forall>l. l \<in> set (loads (mstate (run_process evs)))
            \<longleftrightarrow> memo_of (mstate (run_process evs)) l \<noteq> None)
   \<and> (\<forall>l p. memo_of (mstate (run_process evs)) l = Some p
            \<longrightarrow> memo_of (mstate (run_process (evs @ later))) l = Some p)
   \<and> distinct (loads (fold (\<lambda>(w, req) s. snd (embed_POST w req s)) reqs fresh_process))"
proof -
  have 1: "memo_consistent (mstate (run_process evs))"
    unfolding run_process_def
    by (rule fold_process_step_consistent) (simp add: memo_consistent_fresh)
  have 2: "memo_kept (mstate (run_process evs)) (mstate (run_process (evs @ later)))"
    unfolding run_process_def fold_append comp_def by (rule fold_process_step_kept)
  have 3: "memo_consistent (fold (\<lambda>(w, req) s. snd (embed_POST w req s)) reqs fresh_process)"
    by (rule sequential_consistent [OF memo_consistent_fresh])
  from 1 have a: "distinct (loads (mstate (run_process evs)))"
    and b: "\<forall>l. l \<in> set (loads (mstate (run_process evs)))
            \<longleftrightarrow> memo_of (mstate (run_process evs)) l \<noteq> None"
    unfolding memo_consistent_def by simp_all
  from 2 have c: "\<forall>l p. memo_of (mstate (run_process evs)) l = Some p
            \<longrightarrow> memo_of (mstate (run_process (evs @ later))) l = Some p"
    unfolding memo_kept_def .
  from 3 have d: "distinct (loads (fold (\<lambda>(w, req) s. snd (embed_POST w req s)) reqs fresh_process))"
    unfolding memo_consistent_def by simp
  from a b c d show ?thesis by (intro conjI)
qed

lemma mstate_two_first_requests:
  "mstate (run_process two_first_requests) = loaded_process"
  by (simp add: run_process_def two_first_requests_def working_library_def fresh_process_def
      getTransformers_def start_loads_def load_processor_def load_visionModel_def
      load_tokenizer_def load_textModel_def text_branch_def truthy_def embed_image_def
      read_image_def loaded_process_def Let_def)

theorem loads_started_once_witness:
  "memo_of (mstate (run_process two_first_requests)) (Import ''@xenova/transformers'')
     = Some (Resolves ())
   \<and> memo_of (mstate (run_process (two_first_requests @ [Resume 1 working_library])))
         (Import ''@xenova/transformers'') = Some (Resolves ())
   \<and> distinct (loads (mstate (run_process two_first_requests)))
   \<and> length (loads (mstate (run_process two_first_requests))) = 5"
proof -
  have h: "memo_of (mstate (run_process two_first_requests)) (Import ''@xenova/transformers'')
     = Some (Resolves ())"
    by (simp add: mstate_two_first_requests loaded_process_def)
  have n: "length (loads (mstate (run_process two_first_requests))) = 5"
    by (simp add: mstate_two_first_requests loaded_process_def)
  from loads_started_once [of two_first_requests "[Resume 1 working_library]" "[]"] h n
  show ?thesis by blast
qed

subsection \<open>Library doubles\<close>

lemma initializeModels_fresh:
  assumes "import_transformers w = Resolves ()" and "from_pretrained w = (\<lambda>k m. Resolves ())"
  shows "initializeModels w fresh_process = (Inr loaded_promises, loaded_process)"
  using assms
  by (simp add: initializeModels_def getTransformers_def start_loads_def load_processor_def
      load_visionModel_def load_tokenizer_def load_textModel_def fresh_process_def
      loaded_promises_def loaded_process_def Let_def)

lemma initializeModels_working_library:
  "initializeModels working_library fresh_process = (Inr loaded_promises, loaded_process)"
  by (rule initializeModels_fresh) (simp_all add: working_library_def)

lemma initializeModels_failing_vision:
  "initializeModels failing_vision fresh_process = (Inr loaded_promises, loaded_process)"
  by (rule initializeModels_fresh) (simp_all add: failing_vision_def working_library_def)

lemma initializeModels_nan_text_model:
  "initializeModels nan_text_model fresh_process = (Inr loaded_promises, loaded_process)"
  by (rule initializeModels_fresh) (simp_all add: nan_text_model_def working_library_def)


lemma initializeModels_unreachable_url:
  "initializeModels unreachable_url fresh_process = (Inr loaded_promises, loaded_process)"
  by (rule initializeModels_fresh) (simp_all add: unreachable_url_def working_library_def)

lemma finite32_examples:
  "finite32 1" "finite32 2" "finite32 3" "finite32 0"
  "\<not> finite32 2143289344" "\<not> finite32 2139095040" "\<not> finite32 4286578688"
  by (simp_all add: finite32_def)

subsection \<open>Requests without usable input\<close>

text \<open>\<^verbatim>\<open>initializeModels\<close> throws exactly when the import of the library is rejected.\<close>

lemma initializeModels_throws:
  "fst (initializeModels w s) = Inl err \<longleftrightarrow> fst (getTransformers w s) = Rejects err"
  by (cases "fst (getTransformers w s)")
     (simp_all add: initializeModels_def split_beta)

text \<open>
  C1 (as amended).  For a request whose JSON body has none of the three fields, the
  handler first runs \<^verbatim>\<open>initializeModels\<close>, and the answer is decided by its outcome: when
  it returns, the response is exactly status 400 with the body
  \<^verbatim>\<open>{"error": "Provide text, image_url, or image_base64."}\<close>; when it throws (the library
  import is rejected), the response is the 500 of the \<^verbatim>\<open>catch\<close> block.  In both cases
  the module state is the one \<^verbatim>\<open>initializeModels\<close> leaves.
\<close>

theorem embed_no_fields:
  assumes "json req = Resolves b"
    and "text_field b = None" and "image_url b = None" and "image_base64 b = None"
  shows "embed_POST w req s =
           (case initializeModels w s of
              (Inl err, s1) \<Rightarrow> (embed_failure err, s1)
            | (Inr ps, s1) \<Rightarrow>
                (\<lparr>status = 400, headers = [(''content-type'', ''application/json'')],
                  body = JObject [(''error'', JString ''Provide text, image_url, or image_base64.'')]\<rparr>,
                 s1))"
  using assms
  by (simp add: embed_POST_def text_branch_def image_branch_def truthy_def respond_def
      json_response_def split: prod.split sum.split)

theorem embed_no_fields_witness:
  "embed_POST working_library
     \<lparr>json = Resolves \<lparr>text_field = None, image_url = None, image_base64 = None\<rparr>\<rparr>
     fresh_process
   = (\<lparr>status = 400, headers = [(''content-type'', ''application/json'')],
       body = JObject [(''error'', JString ''Provide text, image_url, or image_base64.'')]\<rparr>,
      loaded_process)"
  using embed_no_fields
    [of "\<lparr>json = Resolves \<lparr>text_field = None, image_url = None, image_base64 = None\<rparr>\<rparr>"
        "\<lparr>text_field = None, image_url = None, image_base64 = None\<rparr>"
        working_library fresh_process]
  by (simp add: initializeModels_working_library)

text \<open>
  The claim as first stated (status 400 for every such request) fails where the import of
  the library is rejected: the empty object is then answered with status 500.
\<close>

theorem embed_no_fields_counterexample:
  "fst (embed_POST missing_library
         \<lparr>json = Resolves \<lparr>text_field = None, image_url = None, image_base64 = None\<rparr>\<rparr>
         fresh_process)
     = \<lparr>status = 500, headers = [(''content-type'', ''application/json'')],
         body = JObject [(''error'', JString ''Cannot find package @xenova/transformers'')]\<rparr>"
  by code_simp

text \<open>
  C9 (as amended).  When \<^verbatim>\<open>image_url\<close> or \<^verbatim>\<open>image_base64\<close> is present as the empty
  string, and the body has no text and no non-empty image field, the image branch is
  skipped (the test of line 76 is string truthiness) and the request is answered as one
  without input: status 400 with the missing-input message whenever \<^verbatim>\<open>initializeModels\<close>
  returns, and the 500 of the \<^verbatim>\<open>catch\<close> block when it throws.
\<close>

theorem embed_empty_image_field:
  assumes "json req = Resolves b"
    and "text_field b = None"
    and "image_url b = Some [] \<or> image_base64 b = Some []"
    and "image_url b = Some [] \<or> image_url b = None"
    and "image_base64 b = Some [] \<or> image_base64 b = None"
  shows "image_branch w ps b s' = (Inr None, s')
         \<and> embed_POST w req s =
           (case initializeModels w s of
              (Inl err, s1) \<Rightarrow> (embed_failure err, s1)
            | (Inr ps, s1) \<Rightarrow>
                (\<lparr>status = 400, headers = [(''content-type'', ''application/json'')],
                  body = JObject [(''error'', JString ''Provide text, image_url, or image_base64.'')]\<rparr>,
                 s1))"
  using assms
  by (auto simp: embed_POST_def text_branch_def image_branch_def truthy_def respond_def
      json_response_def split: prod.split sum.split)

theorem embed_empty_image_field_witness:
  "embed_POST working_library
     \<lparr>json = Resolves \<lparr>text_field = None, image_url = Some [], image_base64 = None\<rparr>\<rparr>
     fresh_process
   = (\<lparr>status = 400, headers = [(''content-type'', ''application/json'')],
       body = JObject [(''error'', JString ''Provide text, image_url, or image_base64.'')]\<rparr>,
      loaded_process)"
  using embed_empty_image_field
    [of "\<lparr>json = Resolves \<lparr>text_field = None, image_url = Some [], image_base64 = None\<rparr>\<rparr>"
        "\<lparr>text_field = None, image_url = Some [], image_base64 = None\<rparr>"
        working_library loaded_promises loaded_process fresh_process]
  by (simp add: initializeModels_working_library)

text \<open>
  The claim as first stated (status 400 for every such request) fails where the import of
  the library is rejected.
\<close>

theorem embed_empty_image_field_counterexample:
  "fst (embed_POST missing_library
         \<lparr>json = Resolves \<lparr>text_field = None, image_url = None, image_base64 = Some []\<rparr>\<rparr>
         fresh_process)
     = \<lparr>status = 500, headers = [(''content-type'', ''application/json'')],
         body = JObject [(''error'', JString ''Cannot find package @xenova/transformers'')]\<rparr>"
  by code_simp

subsection \<open>Successful requests\<close>

text \<open>
  The text branch succeeds exactly when the body has a text, the two awaited loads have
  resolved, and the tokenizer and the text model answer.
\<close>

lemma text_branch_success:
  "text_branch w ps b = Inr (Some v) \<longleftrightarrow>
     (\<exists>t inputs. text_field b = Some t
        \<and> tokenizerP ps = Resolves () \<and> textModelP ps = Resolves ()
        \<and> call_tok w [t] = Inr inputs \<and> call_textModel w inputs = Resolves v)"
  by (cases "tokenizerP ps"; cases "textModelP ps")
     (auto simp: text_branch_def split: option.splits sum.splits elim!: await.elims)

lemma map_number_json_finite:
  "\<forall>x \<in> set v. finite32 x \<Longrightarrow> map number_json v = map JNumber v"
  by (induction v) (simp_all add: number_json_def)

text \<open>
  C4 (as amended).  For a request whose body has a text and neither image field, when
  the tokenizer call and the text-model call succeed with a non-empty vector, the
  response is status 200 and its body is the object with the single field
  \<^verbatim>\<open>text_embedding\<close>, a non-empty array with one entry for each element of the vector, in
  order: the number itself when it is finite, and \<^verbatim>\<open>null\<close> when it is \<^verbatim>\<open>NaN\<close> or an
  infinity.  There is no \<^verbatim>\<open>image_embedding\<close> field.  The array is an array of numbers
  when every element of the vector is finite.  (The two calls are made once
  \<^verbatim>\<open>initializeModels\<close> has returned and the tokenizer and text-model loads have
  resolved.)
\<close>

theorem embed_text_only:
  assumes "json req = Resolves b"
    and "text_field b = Some t" and "image_url b = None" and "image_base64 b = None"
    and "initializeModels w s = (Inr ps, s1)"
    and "tokenizerP ps = Resolves ()" and "textModelP ps = Resolves ()"
    and "call_tok w [t] = Inr inputs"
    and "call_textModel w inputs = Resolves v" and "v \<noteq> []"
  shows "embed_POST w req s =
           (\<lparr>status = 200, headers = [(''content-type'', ''application/json'')],
             body = JObject [(''text_embedding'', JArray (map number_json v))]\<rparr>, s1)
         \<and> map number_json v \<noteq> []
         \<and> length (map number_json v) = length v
         \<and> ((\<forall>x \<in> set v. finite32 x) \<longrightarrow> map number_json v = map JNumber v)"
  using assms
  by (simp add: embed_POST_def text_branch_def image_branch_def truthy_def respond_def
      json_response_def embedding_json_def map_number_json_finite)

theorem embed_text_only_witness:
  "embed_POST working_library
     \<lparr>json = Resolves \<lparr>text_field = Some ''a cat'', image_url = None, image_base64 = None\<rparr>\<rparr>
     fresh_process
   = (\<lparr>status = 200, headers = [(''content-type'', ''application/json'')],
       body = JObject [(''text_embedding'', JArray [JNumber 1, JNumber 2])]\<rparr>,
      loaded_process)"
proof -
  have "call_tok working_library [''a cat''] = Inr [5]"
    and "call_textModel working_library [5] = Resolves [1, 2]"
    by (simp_all add: working_library_def)
  with embed_text_only
    [of "\<lparr>json = Resolves \<lparr>text_field = Some ''a cat'', image_url = None, image_base64 = None\<rparr>\<rparr>"
        "\<lparr>text_field = Some ''a cat'', image_url = None, image_base64 = None\<rparr>"
        "''a cat''" working_library fresh_process loaded_promises loaded_process
        "[5]" "[1, 2]"]
  show ?thesis
    by (simp add: initializeModels_working_library loaded_promises_def finite32_examples)
qed

text \<open>
  The claim as first stated (a numeric array) fails where the text model answers with a
  vector that holds \<^verbatim>\<open>NaN\<close>: the request is answered with status 200 and the body
  \<^verbatim>\<open>{"text_embedding":[null]}\<close>.
\<close>

theorem embed_text_only_counterexample:
  "call_textModel nan_text_model [5] = Resolves [2143289344]
   \<and> embed_POST nan_text_model
       \<lparr>json = Resolves \<lparr>text_field = Some ''a cat'', image_url = None, image_base64 = None\<rparr>\<rparr>
       fresh_process
     = (\<lparr>status = 200, headers = [(''content-type'', ''application/json'')],
         body = JObject [(''text_embedding'', JArray [JNull])]\<rparr>,
        loaded_process)"
proof -
  have c: "call_textModel nan_text_model [5] = Resolves [2143289344]"
    by (simp add: nan_text_model_def working_library_def)
  have t: "text_branch nan_text_model loaded_promises
      \<lparr>text_field = Some ''a cat'', image_url = None, image_base64 = None\<rparr>
     = Inr (Some [2143289344])"
    by (simp add: text_branch_def nan_text_model_def working_library_def loaded_promises_def)
  show ?thesis
    by (simp add: c t embed_POST_def initializeModels_nan_text_model image_branch_def
        truthy_def respond_def json_response_def embedding_json_def number_json_def
        finite32_examples)
qed




subsection \<open>No partial result\<close>

text \<open>
  A response with status 200 is built from the results of both branches: neither has
  thrown.
\<close>

lemma embed_POST_200:
  assumes "embed_POST w req s = (resp, s2)" and "status resp = 200"
  shows "\<exists>b ps s1 text_embedding image_embedding.
           json req = Resolves b
           \<and> initializeModels w s = (Inr ps, s1)
           \<and> text_branch w ps b = Inr text_embedding
           \<and> image_branch w ps b s1 = (Inr image_embedding, s2)
           \<and> resp = respond text_embedding image_embedding"
  using assms
  by (cases "json req")
     (auto simp: embed_POST_def embed_failure_def json_response_def
       split: sum.splits prod.splits)

text \<open>
  C6.  When the text branch has computed a text embedding and the image branch then
  throws, the response is the single 500 error response of the \<^verbatim>\<open>catch\<close> block, whose
  body has the field \<^verbatim>\<open>error\<close> only: the text embedding is dropped.
\<close>

theorem embed_no_partial_result:
  assumes "json req = Resolves b"
    and "initializeModels w s = (Inr ps, s1)"
    and "text_branch w ps b = Inr (Some v)"
    and "image_branch w ps b s1 = (Inl err, s2)"
  shows "embed_POST w req s =
           (\<lparr>status = 500, headers = [(''content-type'', ''application/json'')],
             body = JObject [(''error'',
               JString (case message err of
                          None \<Rightarrow> ''Failed to produce CLIP embeddings''
                        | Some m \<Rightarrow> m))]\<rparr>, s2)"
  using assms
  by (simp add: embed_POST_def embed_failure_def json_response_def)

theorem embed_no_partial_result_witness:
  "embed_POST failing_vision
     \<lparr>json = Resolves \<lparr>text_field = Some ''a cat'', image_url = None,
                        image_base64 = Some ''AAAA''\<rparr>\<rparr>
     fresh_process
   = (\<lparr>status = 500, headers = [(''content-type'', ''application/json'')],
       body = JObject [(''error'', JString ''Unsupported image'')]\<rparr>,
      loaded_process)"
proof -
  have "text_branch failing_vision loaded_promises
          \<lparr>text_field = Some ''a cat'', image_url = None, image_base64 = Some ''AAAA''\<rparr>
        = Inr (Some [1, 2])"
    by code_simp
  moreover have "image_branch failing_vision loaded_promises
          \<lparr>text_field = Some ''a cat'', image_url = None, image_base64 = Some ''AAAA''\<rparr>
          loaded_process
        = (Inl (JsError (Some ''Unsupported image'')), loaded_process)"
    by code_simp
  ultimately show ?thesis
    using embed_no_partial_result
      [of "\<lparr>json = Resolves \<lparr>text_field = Some ''a cat'', image_url = None,
                              image_base64 = Some ''AAAA''\<rparr>\<rparr>"
          "\<lparr>text_field = Some ''a cat'', image_url = None, image_base64 = Some ''AAAA''\<rparr>"
          failing_vision fresh_process loaded_promises loaded_process
          "[1, 2]" "JsError (Some ''Unsupported image'')" loaded_process]
    by (simp add: initializeModels_failing_vision)
qed

subsection \<open>Precedence of \<^verbatim>\<open>image_url\<close>\<close>

text \<open>
  Once \<^verbatim>\<open>initializeModels\<close> has returned, the import promise it awaited is memoized
  and resolved, so the \<^verbatim>\<open>await getTransformers()\<close> of line 77 returns.
\<close>

lemma transformersPromise_start_loads:
  "transformersPromise (snd (start_loads w s)) = transformersPromise s"
  by (simp add: start_loads_def load_processor_def load_visionModel_def load_tokenizer_def
      load_textModel_def Let_def split_beta split: option.split)

lemma transformersPromise_getTransformers:
  "transformersPromise (snd (getTransformers w s)) = Some (fst (getTransformers w s))"
  by (simp add: getTransformers_def Let_def split: option.split)

lemma getTransformers_after_initializeModels:
  assumes "initializeModels w s = (Inr ps, s1)"
  shows "getTransformers w' s1 = (Resolves (), s1)"
proof -
  from assms have r: "fst (getTransformers w s) = Resolves ()"
    and s1: "s1 = snd (start_loads w (snd (getTransformers w s)))"
    by (cases "fst (getTransformers w s)";
        simp add: initializeModels_def split_beta)+
  have "transformersPromise s1 = Some (Resolves ())"
    by (simp add: s1 transformersPromise_start_loads transformersPromise_getTransformers r)
  then show ?thesis
    by (simp add: getTransformers_def)
qed

lemma text_branch_image_base64:
  "text_branch w ps (b\<lparr>image_base64 := y\<rparr>) = text_branch w ps b"
  by (simp add: text_branch_def)

lemma read_image_url:
  "image_url b = Some u \<Longrightarrow> u \<noteq> [] \<Longrightarrow>
     read_image w b =
       (case await (RawImage_read w u) of Inl e \<Rightarrow> Inl e | Inr img \<Rightarrow> Inr (Some img))"
  by (simp add: read_image_def)

lemma image_branch_image_base64:
  assumes "image_url b = Some u" and "u \<noteq> []"
  shows "image_branch w ps (b\<lparr>image_base64 := y\<rparr>) s = image_branch w ps b s"
proof -
  have "read_image w (b\<lparr>image_base64 := y\<rparr>) = read_image w b"
    using assms by (simp add: read_image_url)
  then have "embed_image w ps (b\<lparr>image_base64 := y\<rparr>) = embed_image w ps b"
    by (simp add: embed_image_def cong: sum.case_cong)
  then show ?thesis
    using assms
    by (simp add: image_branch_def truthy_def cong: sum.case_cong prod.case_cong)
qed

text \<open>
  With a non-empty \<^verbatim>\<open>image_url\<close>, the handler is the following chain, in which the
  only image read is the one of \<^verbatim>\<open>image_url\<close>.
\<close>

lemma embed_POST_image_url:
  assumes "json req = Resolves b" and "image_url b = Some u" and "u \<noteq> []"
  shows "embed_POST w req s =
     (case initializeModels w s of
        (Inl err, s1) \<Rightarrow> (embed_failure err, s1)
      | (Inr ps, s1) \<Rightarrow>
          (case text_branch w ps b of
             Inl err \<Rightarrow> (embed_failure err, s1)
           | Inr text_embedding \<Rightarrow>
               (case Promise_all2 (rejects_first w CLIPVisionModelWithProjection AutoProcessor)
                       (processorP ps) (visionModelP ps) of
                  Inl err \<Rightarrow> (embed_failure err, s1)
                | Inr _ \<Rightarrow>
                    (case await (RawImage_read w u) of
                       Inl err \<Rightarrow> (embed_failure err, s1)
                     | Inr img \<Rightarrow>
                         (case await (call_proc w (Some img)) of
                            Inl err \<Rightarrow> (embed_failure err, s1)
                          | Inr image_inputs \<Rightarrow>
                              (case await (call_visionModel w image_inputs) of
                                 Inl err \<Rightarrow> (embed_failure err, s1)
                               | Inr image_embeds \<Rightarrow>
                                   (respond text_embedding (Some image_embeds), s1)))))))"
proof (cases "initializeModels w s")
  case (Pair r s1)
  show ?thesis
  proof (cases r)
    case (Inl err)
    with Pair assms show ?thesis by (simp add: embed_POST_def)
  next
    case (Inr ps)
    with Pair have g: "getTransformers w s1 = (Resolves (), s1)"
      using getTransformers_after_initializeModels by blast
    have "image_branch w ps b s1 =
        (case embed_image w ps b of Inl e \<Rightarrow> (Inl e, s1) | Inr v \<Rightarrow> (Inr (Some v), s1))"
      using assms by (simp add: image_branch_def truthy_def g)
    with Pair Inr assms show ?thesis
      by (simp add: embed_POST_def embed_image_def read_image_url split: sum.split)
  qed
qed

text \<open>The reader of the library is used by the image branch only.\<close>

lemma getTransformers_RawImage_read:
  "getTransformers (w\<lparr>RawImage_read := r\<rparr>) s = getTransformers w s"
  by (simp add: getTransformers_def cong: option.case_cong)

lemma start_loads_RawImage_read:
  "start_loads (w\<lparr>RawImage_read := r\<rparr>) s = start_loads w s"
proof -
  have "load_processor (w\<lparr>RawImage_read := r\<rparr>) = load_processor w"
    and "load_visionModel (w\<lparr>RawImage_read := r\<rparr>) = load_visionModel w"
    and "load_tokenizer (w\<lparr>RawImage_read := r\<rparr>) = load_tokenizer w"
    and "load_textModel (w\<lparr>RawImage_read := r\<rparr>) = load_textModel w"
    by (simp_all add: fun_eq_iff load_processor_def load_visionModel_def load_tokenizer_def
        load_textModel_def cong: option.case_cong)
  then show ?thesis
    by (simp add: start_loads_def)
qed

lemma initializeModels_RawImage_read:
  "initializeModels (w\<lparr>RawImage_read := r\<rparr>) s = initializeModels w s"
  by (simp add: initializeModels_def getTransformers_RawImage_read start_loads_RawImage_read
      cong: sum.case_cong prod.case_cong)

lemma text_branch_RawImage_read:
  "text_branch (w\<lparr>RawImage_read := r\<rparr>) ps b = text_branch w ps b"
  by (simp add: text_branch_def cong: option.case_cong sum.case_cong)

text \<open>
  C10.  When the body has both a non-empty \<^verbatim>\<open>image_url\<close> and a non-empty
  \<^verbatim>\<open>image_base64\<close>, the handler reads the image from \<^verbatim>\<open>image_url\<close>: once
  \<^verbatim>\<open>initializeModels\<close> has returned, the text branch has not thrown and the processor and
  vision-model loads have resolved, the handler's answer is decided by
  \<^verbatim>\<open>RawImage.read(image_url)\<close>: the 500 of the \<^verbatim>\<open>catch\<close> block when that read fails, and
  otherwise what the processor and the vision model make of the image read.
  \<^verbatim>\<open>image_base64\<close> is ignored: the response and the state are the same whatever stands in
  \<^verbatim>\<open>image_base64\<close> (another string, or nothing), and whatever the library would answer
  when asked to read any source other than \<^verbatim>\<open>image_url\<close>, the data URL of
  \<^verbatim>\<open>image_base64\<close> among them.
\<close>

theorem embed_image_url_precedence:
  assumes "json req = Resolves b"
    and "image_url b = Some u" and "u \<noteq> []"
    and "image_base64 b = Some x" and "x \<noteq> []"
  shows "embed_POST w req s =
     (case initializeModels w s of
        (Inl err, s1) \<Rightarrow> (embed_failure err, s1)
      | (Inr ps, s1) \<Rightarrow>
          (case text_branch w ps b of
             Inl err \<Rightarrow> (embed_failure err, s1)
           | Inr text_embedding \<Rightarrow>
               (case Promise_all2 (rejects_first w CLIPVisionModelWithProjection AutoProcessor)
                       (processorP ps) (visionModelP ps) of
                  Inl err \<Rightarrow> (embed_failure err, s1)
                | Inr _ \<Rightarrow>
                    (case await (RawImage_read w u) of
                       Inl err \<Rightarrow> (embed_failure err, s1)
                     | Inr img \<Rightarrow>
                         (case await (call_proc w (Some img)) of
                            Inl err \<Rightarrow> (embed_failure err, s1)
                          | Inr image_inputs \<Rightarrow>
                              (case await (call_visionModel w image_inputs) of
                                 Inl err \<Rightarrow> (embed_failure err, s1)
                               | Inr image_embeds \<Rightarrow>
                                   (respond text_embedding (Some image_embeds), s1)))))))
   \<and> embed_POST w \<lparr>json = Resolves (b\<lparr>image_base64 := y\<rparr>)\<rparr> s = embed_POST w req s
   \<and> embed_POST (w\<lparr>RawImage_read := (r(u := RawImage_read w u))\<rparr>) req s = embed_POST w req s"
proof (intro conjI)
  show "embed_POST w \<lparr>json = Resolves (b\<lparr>image_base64 := y\<rparr>)\<rparr> s = embed_POST w req s"
    using assms
    by (simp add: embed_POST_def text_branch_image_base64 image_branch_image_base64
        cong: sum.case_cong prod.case_cong)
next
  show "embed_POST (w\<lparr>RawImage_read := (r(u := RawImage_read w u))\<rparr>) req s = embed_POST w req s"
    by (simp add: embed_POST_image_url [OF assms(1-3)] initializeModels_RawImage_read
        text_branch_RawImage_read cong: sum.case_cong prod.case_cong)
qed (rule embed_POST_image_url [OF assms(1-3)])

text \<open>
  An example: the URL cannot be fetched, the base64 data could be read, and the answer is
  the failure of the fetch.
\<close>

theorem embed_image_url_precedence_witness:
  "embed_POST unreachable_url
     \<lparr>json = Resolves \<lparr>text_field = None, image_url = Some ''https://example.com/cat.png'',
                        image_base64 = Some ''AAAA''\<rparr>\<rparr> fresh_process
     = (\<lparr>status = 500, headers = [(''content-type'', ''application/json'')],
         body = JObject [(''error'', JString ''fetch failed'')]\<rparr>, loaded_process)
   \<and> embed_POST unreachable_url
     \<lparr>json = Resolves \<lparr>text_field = None, image_url = Some ''https://example.com/cat.png'',
                        image_base64 = None\<rparr>\<rparr> fresh_process
     = (\<lparr>status = 500, headers = [(''content-type'', ''application/json'')],
         body = JObject [(''error'', JString ''fetch failed'')]\<rparr>, loaded_process)"
proof -
  have r: "RawImage_read unreachable_url ''https://example.com/cat.png''
             = Rejects (JsError (Some ''fetch failed''))"
    by (simp add: unreachable_url_def working_library_def)
  have t: "text_branch unreachable_url loaded_promises
             \<lparr>text_field = None, image_url = Some ''https://example.com/cat.png'',
              image_base64 = Some ''AAAA''\<rparr> = Inr None"
    by (simp add: text_branch_def)
  have p: "processorP loaded_promises = Resolves ()" "visionModelP loaded_promises = Resolves ()"
    by (simp_all add: loaded_promises_def)
  show ?thesis
    using embed_image_url_precedence
      [of "\<lparr>json = Resolves \<lparr>text_field = None,
              image_url = Some ''https://example.com/cat.png'',
              image_base64 = Some ''AAAA''\<rparr>\<rparr>"
          "\<lparr>text_field = None, image_url = Some ''https://example.com/cat.png'',
            image_base64 = Some ''AAAA''\<rparr>"
          "''https://example.com/cat.png''" "''AAAA''" unreachable_url fresh_process None
          "RawImage_read unreachable_url"]
    by (simp add: initializeModels_unreachable_url r t p embed_failure_def json_response_def)
qed

end
